theory Spec2Isabelle
  imports Complex_Main "HOL-Library.Multiset"
begin

section \<open>Python values used by the handlers of app.py\<close>

text \<open>
  Strings are lists of 8-bit characters. The builtins below recognise the ASCII
  white space and the ASCII digits; the further Unicode white space and digits that
  Python's \<open>int\<close> and \<open>float\<close> also accept are outside this model.
\<close>

definition py_isspace :: "char \<Rightarrow> bool" where
  "py_isspace c \<longleftrightarrow>
     c \<in> set [CHR 0x09, CHR 0x0A, CHR 0x0B, CHR 0x0C, CHR 0x0D,
              CHR 0x1C, CHR 0x1D, CHR 0x1E, CHR 0x1F, CHR 0x20]"

definition py_strip :: "string \<Rightarrow> string" where
  "py_strip s = rev (dropWhile py_isspace (rev (dropWhile py_isspace s)))"

definition is_digit :: "char \<Rightarrow> bool" where
  "is_digit c \<longleftrightarrow> c \<in> set ''0123456789''"

definition digit_val :: "char \<Rightarrow> nat" where
  "digit_val c = of_char c - 48"

text \<open>
  A digit part of a numeric literal: digits, with single underscores allowed between
  two digits. The result is the digits without the underscores.
\<close>

fun digitpart :: "string \<Rightarrow> string option" where
  "digitpart [] = None"
| "digitpart [c] = (if is_digit c then Some [c] else None)"
| "digitpart (c # d # cs) =
     (if \<not> is_digit c then None
      else if d = CHR ''_'' then map_option ((#) c) (digitpart cs)
      else map_option ((#) c) (digitpart (d # cs)))"

definition dec_value :: "string \<Rightarrow> nat" where
  "dec_value ds = foldl (\<lambda>a c. 10 * a + digit_val c) 0 ds"

definition py_nat :: "string \<Rightarrow> nat option" where
  "py_nat s = map_option dec_value (digitpart s)"

text \<open>
  \<open>int(s)\<close> in base ten: surrounding white space is dropped, one sign is allowed,
  then a digit part. \<open>None\<close> stands for the \<open>ValueError\<close> Python raises.
\<close>

definition py_int :: "string \<Rightarrow> int option" where
  "py_int s =
     (case py_strip s of
        [] \<Rightarrow> None
      | c # cs \<Rightarrow>
          if c = CHR ''-'' then map_option (\<lambda>n. - int n) (py_nat cs)
          else if c = CHR ''+'' then map_option int (py_nat cs)
          else map_option int (py_nat (c # cs)))"

text \<open>\<open>s.split(sep)\<close> for a one-character separator: never an empty list.\<close>

fun split_on :: "char \<Rightarrow> string \<Rightarrow> string list" where
  "split_on sep [] = [[]]"
| "split_on sep (c # cs) =
     (if c = sep then [] # split_on sep cs
      else (let r = split_on sep cs in (c # hd r) # tl r))"

text \<open>
  A Python float: \<open>Finite r\<close> stands for the double nearest to the rational \<open>r\<close>
  (rounding is not modelled), next to the two infinities and not-a-number.
\<close>

datatype pyfloat = Finite rat | PosInf | NegInf | NaN

text \<open>The values \<open>request.json\<close> can hold.\<close>

datatype json =
    JNull
  | JBool bool
  | JInt int
  | JFloat pyfloat
  | JStr string
  | JList "json list"
  | JObj "(string \<times> json) list"

text \<open>Python's truth value of a parsed JSON value, as \<open>if v:\<close> tests it.\<close>

fun truthy :: "json \<Rightarrow> bool" where
  "truthy JNull = False"
| "truthy (JBool b) = b"
| "truthy (JInt i) = (i \<noteq> 0)"
| "truthy (JFloat f) = (f \<noteq> Finite 0)"
| "truthy (JStr s) = (s \<noteq> [])"
| "truthy (JList xs) = (xs \<noteq> [])"
| "truthy (JObj kvs) = (kvs \<noteq> [])"

text \<open>
  \<open>d.get(k)\<close> on a dict parsed from a JSON object: the last binding of a repeated
  key wins, and a missing key gives \<open>None\<close> (here \<open>JNull\<close>).
\<close>

definition dict_get :: "(string \<times> json) list \<Rightarrow> string \<Rightarrow> json" where
  "dict_get kvs k = (case map_of (rev kvs) k of None \<Rightarrow> JNull | Some v \<Rightarrow> v)"

section \<open>Database models\<close>

record User =
  user_id :: int
  username :: string
  password_hash :: string
  email :: string
  phone :: string
  is_admin :: bool
  upi_id :: "string option"

record Item =
  item_id :: int
  title :: string
  description :: string
  price :: pyfloat
  currency :: string
  image_filename :: "string option"
  seller_id :: int
  location :: string
  latitude :: "pyfloat option"
  longitude :: "pyfloat option"
  is_sold :: bool

text \<open>
  A chat message holds, for \<open>to_user_id\<close> and \<open>message\<close>, the JSON value of the
  request as the handler hands it to the ORM; the conversions of the store's own
  column types are not modelled.
\<close>

record ChatMessage =
  msg_id :: int
  from_user_id :: int
  to_user_id :: json
  message :: json
  timestamp :: nat

text \<open>
  The state: the three tables in storage order, the upload folder, and the user id
  that the session cookie of the requesting client carries.
\<close>

record world =
  users :: "User list"
  items :: "Item list"
  chat_messages :: "ChatMessage list"
  uploads :: "(string \<times> string) list"
  session :: "int option"

text \<open>The primary key the store gives a new row: one more than the largest key.\<close>

definition next_id :: "int list \<Rightarrow> int" where
  "next_id ids = (if ids = [] then 1 else fold max ids (hd ids) + 1)"

text \<open>\<open>Model.query.get(id)\<close>: the row with that primary key, if any.\<close>

definition get_user :: "int \<Rightarrow> world \<Rightarrow> User option" where
  "get_user uid w = find (\<lambda>u. user_id u = uid) (users w)"

definition get_item :: "int \<Rightarrow> world \<Rightarrow> Item option" where
  "get_item iid w = find (\<lambda>i. item_id i = iid) (items w)"

text \<open>\<open>load_user\<close> applied to the session's user id gives \<open>current_user\<close>.\<close>

definition current_user :: "world \<Rightarrow> User option" where
  "current_user w = (case session w of None \<Rightarrow> None | Some uid \<Rightarrow> get_user uid w)"

section \<open>Requests and responses\<close>

text \<open>\<open>request.form\<close> and \<open>os.environ\<close>: a field name gives its value, if present.\<close>

type_synonym form = "string \<rightharpoonup> string"

datatype http_method = GET | POST

text \<open>
  What a handler's failure is: the 400 of a missing form field, the 404 of
  \<open>get_or_404\<close>, or an exception nobody catches (a 500), named by its class.
\<close>

datatype fault = BadRequest | NotFound | Uncaught string

datatype page =
    NoData
  | ItemList "Item list"
  | ItemPage Item "User option"
  | BuyPage Item
  | ChatPage Item int "ChatMessage list"

text \<open>
  A response: a redirect to an endpoint or a rendered template, each with the
  message flashed on the way (if any), or a JSON body with its status code.
\<close>

datatype response =
    Redirect string "string option"
  | Render string page "string option"
  | Json nat json

type_synonym outcome = "fault + response"

text \<open>\<open>login_required\<close> sends a client without a user to the login view.\<close>

definition unauthorized :: response where
  "unauthorized = Redirect ''login'' (Some ''Please log in to access this page.'')"

text \<open>
  What the handlers take from the libraries and the process around them: werkzeug's
  password hashing (the salt drawn is part of the function) and file-name cleaning,
  the gateway SDK's two checksum functions, the process environment, the clock that
  stamps a new chat message and the formatting of a time stamp.
\<close>

record platform =
  generate_password_hash :: "string \<Rightarrow> string"
  check_password_hash :: "string \<Rightarrow> string \<Rightarrow> bool"
  secure_filename :: "string \<Rightarrow> string"
  sdk_generate_checksum :: "(string \<times> string option) list \<Rightarrow> string option \<Rightarrow> string"
  sdk_verify_checksum :: "(string \<times> string option) list \<Rightarrow> string option \<Rightarrow> string \<Rightarrow> bool"
  environ :: form
  utcnow :: nat
  strftime :: "nat \<Rightarrow> string"

section \<open>Helpers of app.py\<close>

definition py_lower :: "string \<Rightarrow> string" where
  "py_lower s =
     map (\<lambda>c. if (65::nat) \<le> of_char c \<and> of_char c \<le> (90::nat)
              then char_of (of_char c + (32::nat)) else c) s"

definition ALLOWED_EXTENSIONS :: "string list" where
  "ALLOWED_EXTENSIONS = [''png'', ''jpg'', ''jpeg'', ''gif'']"

text \<open>\<open>filename.rsplit('.', 1)[1]\<close> is what follows the last dot.\<close>

definition allowed_file :: "string \<Rightarrow> bool" where
  "allowed_file filename \<longleftrightarrow>
     CHR ''.'' \<in> set filename \<and>
     py_lower (last (split_on CHR ''.'' filename)) \<in> set ALLOWED_EXTENSIONS"

definition generate_checksum ::
  "platform \<Rightarrow> (string \<times> string option) list \<Rightarrow> string option \<Rightarrow> string" where
  "generate_checksum pf params key = sdk_generate_checksum pf params key"

definition verify_checksum ::
  "platform \<Rightarrow> (string \<times> string option) list \<Rightarrow> string \<Rightarrow> string option \<Rightarrow> bool" where
  "verify_checksum pf params checksum key = sdk_verify_checksum pf params key checksum"

section \<open>The payment callback\<close>

text \<open>\<open>item.is_sold = True\<close> and the commit: the row with that key is updated.\<close>

definition mark_sold :: "int \<Rightarrow> Item list \<Rightarrow> Item list" where
  "mark_sold iid its = map (\<lambda>i. if item_id i = iid then i\<lparr>is_sold := True\<rparr> else i) its"

definition paytm_redirect :: "form \<Rightarrow> world \<Rightarrow> outcome \<times> world" where
  "paytm_redirect frm w =
     (if frm ''STATUS'' = Some ''TXN_SUCCESS'' then
        (case frm ''ORDERID'' of
           None \<Rightarrow> (Inl (Uncaught ''AttributeError''), w)
         | Some order_id \<Rightarrow>
             (case py_int (last (split_on CHR ''_'' order_id)) of
                None \<Rightarrow> (Inl (Uncaught ''ValueError''), w)
              | Some iid \<Rightarrow>
                  (case get_item iid w of
                     None \<Rightarrow> (Inl NotFound, w)
                   | Some item \<Rightarrow>
                       (Inr (Redirect ''home''
                               (Some ''Payment successful! The item is now marked as sold.'')),
                        w\<lparr>items := mark_sold iid (items w)\<rparr>))))
      else (Inr (Redirect ''home'' (Some ''Payment failed or cancelled.'')), w))"

section \<open>The price of a listing: Python's float of a string\<close>

text \<open>
  \<open>float(s)\<close>: surrounding white space is dropped and one sign is allowed; then
  come \<open>inf\<close>, \<open>infinity\<close> or \<open>nan\<close> in any letter case, or a decimal numeral: a
  mantissa with at least one digit part around at most one dot, and an optional
  exponent. \<open>None\<close> stands for the \<open>ValueError\<close> Python raises.
\<close>

definition opt_digits :: "string \<Rightarrow> string option" where
  "opt_digits s = (if s = [] then Some [] else digitpart s)"

definition py_exponent :: "string \<Rightarrow> int option" where
  "py_exponent s =
     (case s of
        [] \<Rightarrow> None
      | c # cs \<Rightarrow>
          if c = CHR ''-'' then map_option (\<lambda>n. - int n) (py_nat cs)
          else if c = CHR ''+'' then map_option int (py_nat cs)
          else map_option int (py_nat (c # cs)))"

definition scale10 :: "nat \<Rightarrow> int \<Rightarrow> rat" where
  "scale10 m e = (if 0 \<le> e then of_nat m * 10 ^ nat e else of_nat m / 10 ^ nat (- e))"

definition py_decimal :: "string \<Rightarrow> rat option" where
  "py_decimal s =
     (let is_e = (\<lambda>c. c = CHR ''e'' \<or> c = CHR ''E'');
          mant = takeWhile (\<lambda>c. \<not> is_e c) s;
          rest = dropWhile (\<lambda>c. \<not> is_e c) s;
          ip = takeWhile (\<lambda>c. c \<noteq> CHR ''.'') mant;
          dot = dropWhile (\<lambda>c. c \<noteq> CHR ''.'') mant;
          digits =
            (if dot = [] then map_option (\<lambda>i. (i, [])) (digitpart ip)
             else if ip = [] \<and> tl dot = [] then None
             else (case (opt_digits ip, opt_digits (tl dot)) of
                     (Some i, Some f) \<Rightarrow> Some (i, f)
                   | _ \<Rightarrow> None));
          ex = (if rest = [] then Some 0 else py_exponent (tl rest))
      in case (digits, ex) of
           (Some (i, f), Some e) \<Rightarrow> Some (scale10 (dec_value (i @ f)) (e - int (length f)))
         | _ \<Rightarrow> None)"

definition py_float :: "string \<Rightarrow> pyfloat option" where
  "py_float s =
     (let t = py_strip s;
          neg = (t \<noteq> [] \<and> hd t = CHR ''-'');
          body = (if t \<noteq> [] \<and> (hd t = CHR ''-'' \<or> hd t = CHR ''+'') then tl t else t)
      in if py_lower body = ''nan'' then Some NaN
         else if py_lower body = ''inf'' \<or> py_lower body = ''infinity''
           then Some (if neg then NegInf else PosInf)
         else map_option (\<lambda>r. Finite (if neg then - r else r)) (py_decimal body))"

section \<open>Accounts and sessions\<close>

definition home :: "world \<Rightarrow> outcome \<times> world" where
  "home w = (Inr (Render ''home.html'' (ItemList (filter (\<lambda>i. \<not> is_sold i) (items w))) None), w)"

text \<open>
  The query of \<open>login\<close> and of \<open>register\<close>: the first stored user, in storage
  order, one of whose three identity columns equals the value asked for.
\<close>

definition first_user_matching :: "string \<Rightarrow> string \<Rightarrow> string \<Rightarrow> world \<Rightarrow> User option" where
  "first_user_matching un em ph w =
     find (\<lambda>u. username u = un \<or> email u = em \<or> phone u = ph) (users w)"


text \<open>The two handled failures of the account routes, named as the specification does.\<close>

definition invalid_credentials :: response where
  "invalid_credentials = Render ''login.html'' NoData (Some ''Invalid username or password'')"

definition duplicate_identity :: outcome where
  "duplicate_identity =
     Inr (Redirect ''register'' (Some ''Username, email, or phone number already exists.''))"

definition login :: "platform \<Rightarrow> http_method \<Rightarrow> form \<Rightarrow> world \<Rightarrow> outcome \<times> world" where
  "login pf meth frm w =
     (if current_user w \<noteq> None then (Inr (Redirect ''home'' None), w)
      else if meth = POST then
        (case frm ''login_input'' of
           None \<Rightarrow> (Inl BadRequest, w)
         | Some login_input \<Rightarrow>
             (case frm ''password'' of
                None \<Rightarrow> (Inl BadRequest, w)
              | Some password \<Rightarrow>
                  (case first_user_matching login_input login_input login_input w of
                     Some user \<Rightarrow>
                       if check_password_hash pf (password_hash user) password
                       then (Inr (Redirect ''home'' None), w\<lparr>session := Some (user_id user)\<rparr>)
                       else (Inr invalid_credentials, w)
                   | None \<Rightarrow> (Inr invalid_credentials, w))))
      else (Inr (Render ''login.html'' NoData None), w))"

text \<open>
  Adding a user row and committing: the three unique columns make the store refuse
  a row that repeats a user name, an e-mail address or a phone number.
\<close>

definition add_user :: "User \<Rightarrow> world \<Rightarrow> fault + world" where
  "add_user u w =
     (if list_ex (\<lambda>v. username v = username u \<or> email v = email u \<or> phone v = phone u) (users w)
      then Inl (Uncaught ''IntegrityError'')
      else Inr (w\<lparr>users := users w @ [u\<lparr>user_id := next_id (map user_id (users w))\<rparr>]\<rparr>))"

definition register :: "platform \<Rightarrow> http_method \<Rightarrow> form \<Rightarrow> world \<Rightarrow> outcome \<times> world" where
  "register pf meth frm w =
     (if current_user w \<noteq> None then (Inr (Redirect ''home'' None), w)
      else if meth = POST then
        (case (frm ''username'', frm ''email'', frm ''phone'', frm ''password'') of
           (Some un, Some em, Some ph, Some pw) \<Rightarrow>
             (case first_user_matching un em ph w of
                Some existing_user \<Rightarrow> (duplicate_identity, w)
              | None \<Rightarrow>
                  (case add_user
                          \<lparr>user_id = 0, username = un,
                           password_hash = generate_password_hash pf pw,
                           email = em, phone = ph, is_admin = False, upi_id = None\<rparr> w of
                     Inl e \<Rightarrow> (Inl e, w)
                   | Inr w' \<Rightarrow>
                       (Inr (Redirect ''login''
                               (Some ''Registration successful! Please login.'')), w')))
         | _ \<Rightarrow> (Inl BadRequest, w))
      else (Inr (Render ''register.html'' NoData None), w))"

definition logout :: "world \<Rightarrow> outcome \<times> world" where
  "logout w =
     (if current_user w = None then (Inr unauthorized, w)
      else (Inr (Redirect ''home'' None), w\<lparr>session := None\<rparr>))"

text \<open>The start-up routine: the tables exist in the model; the admin row is added once.\<close>

definition create_tables :: "platform \<Rightarrow> world \<Rightarrow> fault + world" where
  "create_tables pf w =
     (case find (\<lambda>u. username u = ''admin'') (users w) of
        Some admin \<Rightarrow> Inr w
      | None \<Rightarrow>
          add_user
            \<lparr>user_id = 0, username = ''admin'',
             password_hash = generate_password_hash pf ''adminpass'',
             email = ''admin@example.com'', phone = ''0000000000'', is_admin = True,
             upi_id = Some ''your-upi-id@bank''\<rparr> w)"

section \<open>Listings\<close>

text \<open>\<open>file.save(path)\<close>: the file at that path is written or replaced.\<close>

definition save_file :: "string \<Rightarrow> string \<Rightarrow> (string \<times> string) list \<Rightarrow> (string \<times> string) list" where
  "save_file path content ups = (path, content) # filter (\<lambda>(q, _). q \<noteq> path) ups"

text \<open>
  \<open>sell_item\<close>. The uploaded file, if any, is a file name with its content. The
  price column is not nullable and the store keeps a not-a-number as NULL, so the
  commit of such a price fails after the file was saved.
\<close>

definition sell_item ::
  "platform \<Rightarrow> http_method \<Rightarrow> form \<Rightarrow> (string \<times> string) option \<Rightarrow> world \<Rightarrow> outcome \<times> world" where
  "sell_item pf meth frm file w =
     (case current_user w of
        None \<Rightarrow> (Inr unauthorized, w)
      | Some cur \<Rightarrow>
          if meth = POST then
            (case (frm ''title'', frm ''description'', frm ''price'') of
               (Some t, Some d, Some price_field) \<Rightarrow>
                 (case py_float price_field of
                    None \<Rightarrow> (Inl (Uncaught ''ValueError''), w)
                  | Some p \<Rightarrow>
                      (case frm ''location'' of
                         None \<Rightarrow> (Inl BadRequest, w)
                       | Some loc \<Rightarrow>
                           (let cy = (case frm ''currency'' of None \<Rightarrow> ''INR'' | Some c \<Rightarrow> c);
                                saved =
                                  (case file of
                                     None \<Rightarrow> None
                                   | Some (fname, content) \<Rightarrow>
                                       if fname \<noteq> [] \<and> allowed_file fname
                                       then Some (secure_filename pf fname, content)
                                       else None);
                                w1 =
                                  (case saved of
                                     None \<Rightarrow> w
                                   | Some (filename, content) \<Rightarrow>
                                       w\<lparr>uploads :=
                                           save_file (''static/uploads/'' @ filename) content
                                             (uploads w)\<rparr>);
                                new_item =
                                  \<lparr>item_id = next_id (map item_id (items w)), title = t,
                                   description = d, price = p, currency = cy,
                                   image_filename = map_option fst saved,
                                   seller_id = user_id cur, location = loc,
                                   latitude = None, longitude = None, is_sold = False\<rparr>
                            in if p = NaN then (Inl (Uncaught ''IntegrityError''), w1)
                               else (Inr (Redirect ''home'' (Some ''Item listed successfully!'')),
                                     w1\<lparr>items := items w1 @ [new_item]\<rparr>))))
             | _ \<Rightarrow> (Inl BadRequest, w))
          else (Inr (Render ''sell.html'' NoData None), w))"

text \<open>An \<open>int\<close> segment of a URL is a string of digits, so never negative.\<close>

definition item_details :: "nat \<Rightarrow> world \<Rightarrow> outcome \<times> world" where
  "item_details iid w =
     (case get_item (int iid) w of
        None \<Rightarrow> (Inl NotFound, w)
      | Some item \<Rightarrow>
          (Inr (Render ''item.html'' (ItemPage item (get_user (seller_id item) w)) None), w))"

definition my_items :: "world \<Rightarrow> outcome \<times> world" where
  "my_items w =
     (case current_user w of
        None \<Rightarrow> (Inr unauthorized, w)
      | Some cur \<Rightarrow>
          (Inr (Render ''my_items.html''
                  (ItemList (filter (\<lambda>i. seller_id i = user_id cur) (items w))) None), w))"

definition buy_item :: "nat \<Rightarrow> world \<Rightarrow> outcome \<times> world" where
  "buy_item iid w =
     (case current_user w of
        None \<Rightarrow> (Inr unauthorized, w)
      | Some cur \<Rightarrow>
          (case get_item (int iid) w of
             None \<Rightarrow> (Inl NotFound, w)
           | Some item \<Rightarrow> (Inr (Render ''buy.html'' (BuyPage item) None), w)))"

section \<open>Chat\<close>

text \<open>
  The query that \<open>chat_with_seller\<close> and \<open>get_messages\<close> both run: the messages one
  of the two users sent to the other, ordered by time stamp; messages with equal time
  stamps stay in storage order.
\<close>

definition conversation :: "int \<Rightarrow> int \<Rightarrow> ChatMessage list \<Rightarrow> ChatMessage list" where
  "conversation me other msgs =
     sort_key timestamp
       (filter (\<lambda>m. (from_user_id m = me \<and> to_user_id m = JInt other) \<or>
                     (from_user_id m = other \<and> to_user_id m = JInt me)) msgs)"

definition chat_with_seller :: "nat \<Rightarrow> world \<Rightarrow> outcome \<times> world" where
  "chat_with_seller iid w =
     (case current_user w of
        None \<Rightarrow> (Inr unauthorized, w)
      | Some cur \<Rightarrow>
          (case get_item (int iid) w of
             None \<Rightarrow> (Inl NotFound, w)
           | Some item \<Rightarrow>
               (Inr (Render ''chat.html''
                       (ChatPage item (seller_id item)
                          (conversation (user_id cur) (seller_id item) (chat_messages w)))
                       None), w)))"

text \<open>
  What the database driver binds as a parameter: no list and no dict, and an integer
  only within 64 bits.
\<close>

fun bindable :: "json \<Rightarrow> bool" where
  "bindable (JList xs) = False"
| "bindable (JObj kvs) = False"
| "bindable (JInt i) = (- (2 ^ 63) \<le> i \<and> i < 2 ^ 63)"
| "bindable v = True"

text \<open>
  \<open>send_message\<close>, on the parsed JSON body. Anything but a JSON object has no
  \<open>get\<close>. The commit fails on a value the driver does not bind, and on a
  not-a-number message, which the store would keep as NULL in a column that is not
  nullable.
\<close>

definition message_sent :: response where
  "message_sent = Json 200 (JObj [(''status'', JStr ''success'')])"

definition validation_error :: response where
  "validation_error =
     Json 400 (JObj [(''status'', JStr ''error''), (''message'', JStr ''Invalid data'')])"

definition send_message :: "platform \<Rightarrow> json \<Rightarrow> world \<Rightarrow> outcome \<times> world" where
  "send_message pf data w =
     (case current_user w of
        None \<Rightarrow> (Inr unauthorized, w)
      | Some cur \<Rightarrow>
          (case data of
             JObj kvs \<Rightarrow>
               (let to = dict_get kvs ''to_user_id'';
                    msg = dict_get kvs ''message''
                in if truthy to \<and> truthy msg then
                     (if \<not> (bindable to \<and> bindable msg) then (Inl (Uncaught ''InterfaceError''), w)
                      else if msg = JFloat NaN then (Inl (Uncaught ''IntegrityError''), w)
                      else
                        (Inr message_sent,
                         w\<lparr>chat_messages := chat_messages w @
                             [\<lparr>msg_id = next_id (map msg_id (chat_messages w)),
                               from_user_id = user_id cur, to_user_id = to,
                               message = msg, timestamp = utcnow pf\<rparr>]\<rparr>))
                   else (Inr validation_error, w))
           | _ \<Rightarrow> (Inl (Uncaught ''AttributeError''), w)))"

text \<open>One entry of the list \<open>get_messages\<close> returns; a sender row that is missing
  makes \<open>msg.from_user.username\<close> raise.\<close>

definition message_entry :: "platform \<Rightarrow> world \<Rightarrow> ChatMessage \<Rightarrow> json option" where
  "message_entry pf w m =
     (case get_user (from_user_id m) w of
        None \<Rightarrow> None
      | Some u \<Rightarrow>
          Some (JObj [(''from_user'', JStr (username u)),
                      (''message'', message m),
                      (''timestamp'', JStr (strftime pf (timestamp m)))]))"

definition get_messages :: "platform \<Rightarrow> nat \<Rightarrow> world \<Rightarrow> outcome \<times> world" where
  "get_messages pf other w =
     (case current_user w of
        None \<Rightarrow> (Inr unauthorized, w)
      | Some cur \<Rightarrow>
          (case those (map (message_entry pf w)
                        (conversation (user_id cur) (int other) (chat_messages w))) of
             None \<Rightarrow> (Inl (Uncaught ''AttributeError''), w)
           | Some message_list \<Rightarrow> (Inr (Json 200 (JList message_list)), w)))"

section \<open>The gateway's routes\<close>

definition get_api_info :: "platform \<Rightarrow> world \<Rightarrow> outcome \<times> world" where
  "get_api_info pf w =
     (Inr (Json 200
        (JObj [(''paytm_mid'',
                  JStr (case environ pf ''PAYTM_MID'' of None \<Rightarrow> ''not-found'' | Some v \<Rightarrow> v)),
               (''paytm_api_key'',
                  JStr (case environ pf ''PAYTM_API_KEY'' of None \<Rightarrow> ''not-found'' | Some v \<Rightarrow> v))])),
      w)"

definition get_payment_checksum :: "platform \<Rightarrow> string \<Rightarrow> string \<Rightarrow> world \<Rightarrow> outcome \<times> world" where
  "get_payment_checksum pf order_id txn_amount w =
     (let paytm_params =
            [(''MID'', environ pf ''PAYTM_MID''), (''ORDERID'', Some order_id),
             (''TXN_AMOUNT'', Some txn_amount)];
          checksum = generate_checksum pf paytm_params (environ pf ''PAYTM_API_KEY'')
      in (Inr (Json 200 (JObj [(''checksum'', JStr checksum)])), w))"

section \<open>The locale selector\<close>

text \<open>
  \<open>request.accept_languages\<close> is werkzeug's \<open>LanguageAccept\<close>, built from the
  (tag, quality) pairs of the Accept-Language header. Building it sorts the pairs by
  descending (specificity, quality), pairs of equal rank staying in header order; a
  tag's specificity is 0 for the wildcard and 1 otherwise.
\<close>

type_synonym accept = "(string \<times> rat) list"

definition specificity :: "string \<Rightarrow> int" where
  "specificity v = (if v \<noteq> ''*'' then 1 else 0)"

definition rank_less :: "string \<times> rat \<Rightarrow> string \<times> rat \<Rightarrow> bool" where
  "rank_less a b \<longleftrightarrow>
     specificity (fst a) < specificity (fst b) \<or>
     (specificity (fst a) = specificity (fst b) \<and> snd a < snd b)"

fun insert_desc :: "string \<times> rat \<Rightarrow> accept \<Rightarrow> accept" where
  "insert_desc x [] = [x]"
| "insert_desc x (y # ys) = (if rank_less x y then y # insert_desc x ys else x # y # ys)"

definition accept_init :: "accept \<Rightarrow> accept" where
  "accept_init vals = foldr insert_desc vals []"

text \<open>How a supported value matches a client's item: plainly, and for languages.\<close>

definition value_matches :: "string \<Rightarrow> string \<Rightarrow> bool" where
  "value_matches v item \<longleftrightarrow> item = ''*'' \<or> py_lower item = py_lower v"

definition is_delim :: "char \<Rightarrow> bool" where
  "is_delim c \<longleftrightarrow> c = CHR ''_'' \<or> c = CHR ''-''"

fun split_delims :: "string \<Rightarrow> string list" where
  "split_delims [] = [[]]"
| "split_delims (c # cs) =
     (if is_delim c then [] # split_delims cs
      else (let r = split_delims cs in (c # hd r) # tl r))"

definition normalize_lang :: "string \<Rightarrow> string list" where
  "normalize_lang v = split_delims (py_lower v)"

definition lang_matches :: "string \<Rightarrow> string \<Rightarrow> bool" where
  "lang_matches v item \<longleftrightarrow> item = ''*'' \<or> normalize_lang v = normalize_lang item"

definition primary_tag :: "string \<Rightarrow> string" where
  "primary_tag v = takeWhile (\<lambda>c. \<not> is_delim c) v"

text \<open>
  \<open>Accept.best_match\<close>: the loop over the supported values keeps the result, the
  best quality and the best specificity so far (they start as the default, -1 and -1).
\<close>

fun best_match_loop ::
  "(string \<Rightarrow> string \<Rightarrow> bool) \<Rightarrow> accept \<Rightarrow> string list \<Rightarrow> string option \<Rightarrow> rat \<Rightarrow> int \<Rightarrow> string option" where
  "best_match_loop vm acc [] result best_quality best_specificity = result"
| "best_match_loop vm acc (server_item # rest) result best_quality best_specificity =
     (case find (\<lambda>(client_item, quality). vm server_item client_item) acc of
        None \<Rightarrow> best_match_loop vm acc rest result best_quality best_specificity
      | Some (client_item, quality) \<Rightarrow>
          if quality \<le> 0 \<or> quality < best_quality
          then best_match_loop vm acc rest result best_quality best_specificity
          else if quality > best_quality \<or> specificity client_item > best_specificity
          then best_match_loop vm acc rest (Some server_item) quality (specificity client_item)
          else best_match_loop vm acc rest result best_quality best_specificity)"

definition best_match ::
  "(string \<Rightarrow> string \<Rightarrow> bool) \<Rightarrow> accept \<Rightarrow> string list \<Rightarrow> string option" where
  "best_match vm acc matches = best_match_loop vm acc matches None (- 1) (- 1)"

text \<open>
  \<open>LanguageAccept.best_match\<close>: an exact match of the tags first, then a match of
  the client's primary tags, then one of the supported values' primary tags, and the
  default \<open>None\<close> when all three find nothing.
\<close>

definition language_best_match :: "accept \<Rightarrow> string list \<Rightarrow> string option" where
  "language_best_match acc matches =
     (case best_match lang_matches acc matches of
        Some r \<Rightarrow> Some r
      | None \<Rightarrow>
          (case best_match value_matches
                  (accept_init (map (\<lambda>(v, q). (primary_tag v, q)) acc)) matches of
             Some r \<Rightarrow> Some r
           | None \<Rightarrow>
               (case best_match lang_matches acc (map primary_tag matches) of
                  Some r \<Rightarrow> find (\<lambda>item. take (length r) item = r) matches
                | None \<Rightarrow> None)))"

definition get_locale :: "accept \<Rightarrow> string option" where
  "get_locale accept_languages = language_best_match (accept_init accept_languages) [''en'', ''hi'']"

section \<open>All routes\<close>

datatype request =
    ReqHome
  | ReqLogin http_method form
  | ReqRegister http_method form
  | ReqLogout
  | ReqSell http_method form "(string \<times> string) option"
  | ReqItemDetails nat
  | ReqMyItems
  | ReqBuy nat
  | ReqChat nat
  | ReqSendMessage json
  | ReqGetMessages nat
  | ReqApiInfo
  | ReqPaymentChecksum string string
  | ReqPaytmRedirect form

fun handle :: "platform \<Rightarrow> request \<Rightarrow> world \<Rightarrow> outcome \<times> world" where
  "handle pf ReqHome w = home w"
| "handle pf (ReqLogin meth frm) w = login pf meth frm w"
| "handle pf (ReqRegister meth frm) w = register pf meth frm w"
| "handle pf ReqLogout w = logout w"
| "handle pf (ReqSell meth frm file) w = sell_item pf meth frm file w"
| "handle pf (ReqItemDetails iid) w = item_details iid w"
| "handle pf ReqMyItems w = my_items w"
| "handle pf (ReqBuy iid) w = buy_item iid w"
| "handle pf (ReqChat iid) w = chat_with_seller iid w"
| "handle pf (ReqSendMessage data) w = send_message pf data w"
| "handle pf (ReqGetMessages other) w = get_messages pf other w"
| "handle pf ReqApiInfo w = get_api_info pf w"
| "handle pf (ReqPaymentChecksum order_id txn_amount) w = get_payment_checksum pf order_id txn_amount w"
| "handle pf (ReqPaytmRedirect frm) w = paytm_redirect frm w"

section \<open>Example data\<close>

definition radio :: Item where
  "radio = \<lparr>item_id = 42, title = ''Radio'', description = ''Old radio'', price = Finite 100,
     currency = ''INR'', image_filename = None, seller_id = 1, location = ''Pune'',
     latitude = None, longitude = None, is_sold = False\<rparr>"

definition lamp :: Item where
  "lamp = \<lparr>item_id = 7, title = ''Lamp'', description = ''Desk lamp'', price = Finite 250,
     currency = ''INR'', image_filename = None, seller_id = 1, location = ''Pune'',
     latitude = None, longitude = None, is_sold = False\<rparr>"

definition alice :: User where
  "alice = \<lparr>user_id = 1, username = ''alice'', password_hash = ''hash:pw1'',
     email = ''alice@x.com'',
     phone = ''111'', is_admin = False, upi_id = None\<rparr>"

definition shop :: world where
  "shop = \<lparr>users = [alice], items = [lamp, radio], chat_messages = [], uploads = [],
     session = None\<rparr>"

definition paid_form :: form where
  "paid_form = [''STATUS'' \<mapsto> ''TXN_SUCCESS'', ''ORDERID'' \<mapsto> ''order_42'']"


text \<open>
  An example platform for the concrete runs below: hashing puts a tag in front of the
  password, and verifying compares with the tagged password.
\<close>

definition example_platform :: platform where
  "example_platform =
     \<lparr>generate_password_hash = (\<lambda>p. ''hash:'' @ p),
      check_password_hash = (\<lambda>h p. h = ''hash:'' @ p),
      secure_filename = (\<lambda>f. f),
      sdk_generate_checksum = (\<lambda>ps k. ''''),
      sdk_verify_checksum = (\<lambda>ps k c. False),
      environ = Map.empty,
      utcnow = 1000,
      strftime = (\<lambda>t. '''')\<rparr>"

definition registration_form :: "string \<Rightarrow> string \<Rightarrow> string \<Rightarrow> string \<Rightarrow> form" where
  "registration_form un em ph pw =
     [''username'' \<mapsto> un, ''email'' \<mapsto> em, ''phone'' \<mapsto> ph, ''password'' \<mapsto> pw]"





text \<open>The shop with alice logged in, and three bodies for \<open>send_message\<close>.\<close>

definition alice_shop :: world where
  "alice_shop = shop\<lparr>session := Some 1\<rparr>"

definition greeting :: json where
  "greeting = JObj [(''to_user_id'', JInt 999), (''message'', JStr ''hi'')]"

definition forged :: json where
  "forged = JObj [(''from_user_id'', JInt 7), (''to_user_id'', JInt 2), (''message'', JStr ''yo'')]"

definition no_recipient :: json where
  "no_recipient = JObj [(''to_user_id'', JStr ''''), (''message'', JStr ''hi'')]"



text \<open>A listing form with a given price field, and the item it makes in the shop.\<close>

definition listing_form :: "string \<Rightarrow> form" where
  "listing_form price_field =
     [''title'' \<mapsto> ''Chair'', ''description'' \<mapsto> ''Wooden chair'', ''price'' \<mapsto> price_field,
      ''location'' \<mapsto> ''Pune'']"


text \<open>The shop after the payment of order 42, with alice logged in.\<close>

definition sold_shop :: world where
  "sold_shop = snd (paytm_redirect paid_form alice_shop)"

section \<open>Lookups in the tables\<close>

lemma find_map_pres:
  "(\<And>x. P (f x) = P x) \<Longrightarrow> find P (map f xs) = map_option f (find P xs)"
  by (induction xs) auto

lemma find_Some_holds: "find P xs = Some x \<Longrightarrow> P x"
  by (induction xs) (auto split: if_splits)

lemma get_item_mark_sold:
  "get_item m (w\<lparr>items := mark_sold n (items w)\<rparr>) =
     map_option (\<lambda>i. if item_id i = n then i\<lparr>is_sold := True\<rparr> else i) (get_item m w)"
  unfolding get_item_def mark_sold_def by (simp add: find_map_pres)


section \<open>The payment callback marks the paid item as sold\<close>


lemma order_42_parses: "py_int (last (split_on CHR ''_'' ''order_42'')) = Some 42"
  by code_simp

text \<open>
  The scenario of the listing: once order 42 is paid, the home page lists the lamp
  and no longer the radio.
\<close>

lemma home_after_payment:
  "fst (home shop) = Inr (Render ''home.html'' (ItemList [lamp, radio]) None) \<and>
   fst (home (snd (paytm_redirect paid_form shop))) =
     Inr (Render ''home.html'' (ItemList [lamp]) None)"
  using order_42_parses
  by (simp add: home_def paytm_redirect_def paid_form_def get_item_def shop_def mark_sold_def
      lamp_def radio_def)


section \<open>Registration\<close>

lemma first_user_matching_None:
  "first_user_matching un em ph w = None \<longleftrightarrow>
     \<not> (\<exists>u \<in> set (users w). username u = un \<or> email u = em \<or> phone u = ph)"
  unfolding first_user_matching_def by (auto simp: find_None_iff)

lemma add_user_fresh:
  "\<not> (\<exists>v \<in> set (users w). username v = username u \<or> email v = email u \<or> phone v = phone u) \<Longrightarrow>
   add_user u w = Inr (w\<lparr>users := users w @ [u\<lparr>user_id := next_id (map user_id (users w))\<rparr>]\<rparr>)"
  unfolding add_user_def by (simp add: list_ex_iff)

text \<open>
  Claim C2. A registration is a POST by a client that is not logged in, with the four
  fields \<open>username\<close>, \<open>email\<close>, \<open>phone\<close> and \<open>password\<close>. If a stored user has
  that user name, that e-mail address or that phone number, the answer is the
  duplicate-identity redirect and the state is unchanged. If none has, the state
  changes by exactly one new user row at the end of the table, with the submitted
  identity, the hash of the password as \<open>password_hash\<close>, a fresh key, and nothing else.
\<close>

theorem register_duplicate_or_new:
  assumes anon: "current_user w = None"
    and fields: "frm ''username'' = Some un" "frm ''email'' = Some em"
      "frm ''phone'' = Some ph" "frm ''password'' = Some pw"
  shows "((\<exists>u \<in> set (users w). username u = un \<or> email u = em \<or> phone u = ph) \<longrightarrow>
            register pf POST frm w = (duplicate_identity, w)) \<and>
         (\<not> (\<exists>u \<in> set (users w). username u = un \<or> email u = em \<or> phone u = ph) \<longrightarrow>
            register pf POST frm w =
              (Inr (Redirect ''login'' (Some ''Registration successful! Please login.'')),
               w\<lparr>users := users w @
                   [\<lparr>user_id = next_id (map user_id (users w)), username = un,
                     password_hash = generate_password_hash pf pw, email = em, phone = ph,
                     is_admin = False, upi_id = None\<rparr>]\<rparr>))"
proof (intro conjI impI)
  assume dup: "\<exists>u \<in> set (users w). username u = un \<or> email u = em \<or> phone u = ph"
  then have "first_user_matching un em ph w \<noteq> None"
    by (simp add: first_user_matching_None)
  then obtain e where "first_user_matching un em ph w = Some e" by blast
  with anon fields show "register pf POST frm w = (duplicate_identity, w)"
    by (simp add: register_def)
next
  assume fresh: "\<not> (\<exists>u \<in> set (users w). username u = un \<or> email u = em \<or> phone u = ph)"
  then have none: "first_user_matching un em ph w = None"
    by (simp add: first_user_matching_None)
  let ?u = "\<lparr>user_id = 0, username = un, password_hash = generate_password_hash pf pw,
             email = em, phone = ph, is_admin = False, upi_id = None\<rparr>"
  from fresh have "add_user ?u w =
      Inr (w\<lparr>users := users w @ [?u\<lparr>user_id := next_id (map user_id (users w))\<rparr>]\<rparr>)"
    by (intro add_user_fresh) simp
  with anon fields none show "register pf POST frm w =
      (Inr (Redirect ''login'' (Some ''Registration successful! Please login.'')),
       w\<lparr>users := users w @
           [\<lparr>user_id = next_id (map user_id (users w)), username = un,
             password_hash = generate_password_hash pf pw, email = em, phone = ph,
             is_admin = False, upi_id = None\<rparr>]\<rparr>)"
    by (simp add: register_def)
qed

lemma registration_form_fields:
  "registration_form a b c d ''username'' = Some a"
  "registration_form a b c d ''email'' = Some b"
  "registration_form a b c d ''phone'' = Some c"
  "registration_form a b c d ''password'' = Some d"
  by (simp_all add: registration_form_def)

theorem register_duplicate_or_new_witness:
  "register example_platform POST (registration_form ''bob'' ''alice@x.com'' ''222'' ''pw'') shop =
     (duplicate_identity, shop) \<and>
   register example_platform POST (registration_form ''bob'' ''bob@x.com'' ''222'' ''pw'') shop =
     (Inr (Redirect ''login'' (Some ''Registration successful! Please login.'')),
      shop\<lparr>users := [alice,
         \<lparr>user_id = 2, username = ''bob'', password_hash = ''hash:pw'', email = ''bob@x.com'',
          phone = ''222'', is_admin = False, upi_id = None\<rparr>]\<rparr>)"
proof -
  have anon: "current_user shop = None"
    by (simp add: shop_def current_user_def)
  note g = registration_form_fields
  have dup: "\<exists>u \<in> set (users shop). username u = ''bob'' \<or> email u = ''alice@x.com'' \<or> phone u = ''222''"
    by (simp add: shop_def alice_def)
  have fresh: "\<not> (\<exists>u \<in> set (users shop). username u = ''bob'' \<or> email u = ''bob@x.com'' \<or> phone u = ''222'')"
    by (simp add: shop_def alice_def)
  have nid: "next_id (map user_id (users shop)) = 2"
    by (simp add: shop_def alice_def next_id_def)
  have hp: "generate_password_hash example_platform ''pw'' = ''hash:pw''"
    by (simp add: example_platform_def)
  have us: "users shop = [alice]" by (simp add: shop_def)
  from register_duplicate_or_new [where pf = example_platform and w = shop
      and frm = "registration_form ''bob'' ''alice@x.com'' ''222'' ''pw''"
      and un = "''bob''" and em = "''alice@x.com''" and ph = "''222''" and pw = "''pw''",
      OF anon g] dup
  have s1: "register example_platform POST (registration_form ''bob'' ''alice@x.com'' ''222'' ''pw'') shop =
     (duplicate_identity, shop)"
    by blast
  from register_duplicate_or_new [where pf = example_platform and w = shop
      and frm = "registration_form ''bob'' ''bob@x.com'' ''222'' ''pw''"
      and un = "''bob''" and em = "''bob@x.com''" and ph = "''222''" and pw = "''pw''",
      OF anon g] fresh
  have "register example_platform POST (registration_form ''bob'' ''bob@x.com'' ''222'' ''pw'') shop =
     (Inr (Redirect ''login'' (Some ''Registration successful! Please login.'')),
               shop\<lparr>users := users shop @
                   [\<lparr>user_id = next_id (map user_id (users shop)), username = ''bob'',
                     password_hash = generate_password_hash example_platform ''pw'',
                     email = ''bob@x.com'', phone = ''222'',
                     is_admin = False, upi_id = None\<rparr>]\<rparr>)"
    by blast
  with nid hp us s1 show ?thesis by simp
qed

section \<open>Login\<close>








section \<open>Sending a chat message\<close>

lemma current_user_session:
  "current_user w = Some cur \<Longrightarrow> session w = Some (user_id cur)"
  unfolding current_user_def get_user_def
  by (auto split: option.splits dest: find_Some_holds)

lemma alice_shop_user: "current_user alice_shop = Some alice"
  by (simp add: alice_shop_def shop_def current_user_def get_user_def alice_def)

text \<open>
  Claim C3, as the handler has it. For a logged-in client and a JSON object as body:
  the answer is the 400 error exactly when \<open>to_user_id\<close> or \<open>message\<close> is missing or
  falsy (null, false, zero, an empty string, list or object), and then nothing is
  stored. When both are truthy and the database can store them, exactly one message
  row is appended, whether or not \<open>to_user_id\<close> is the key of a stored user. When
  both are truthy and one cannot be stored, the request fails and nothing is stored.
\<close>

theorem send_message_validation:
  assumes auth: "current_user w = Some cur"
  shows "(fst (send_message pf (JObj kvs) w) = Inr validation_error \<longleftrightarrow>
            \<not> (truthy (dict_get kvs ''to_user_id'') \<and> truthy (dict_get kvs ''message''))) \<and>
         (\<not> (truthy (dict_get kvs ''to_user_id'') \<and> truthy (dict_get kvs ''message'')) \<longrightarrow>
            snd (send_message pf (JObj kvs) w) = w) \<and>
         (truthy (dict_get kvs ''to_user_id'') \<and> truthy (dict_get kvs ''message'') \<and>
          bindable (dict_get kvs ''to_user_id'') \<and> bindable (dict_get kvs ''message'') \<and>
          dict_get kvs ''message'' \<noteq> JFloat NaN \<longrightarrow>
            send_message pf (JObj kvs) w =
              (Inr message_sent,
               w\<lparr>chat_messages := chat_messages w @
                   [\<lparr>msg_id = next_id (map msg_id (chat_messages w)),
                     from_user_id = user_id cur, to_user_id = dict_get kvs ''to_user_id'',
                     message = dict_get kvs ''message'', timestamp = utcnow pf\<rparr>]\<rparr>)) \<and>
         (truthy (dict_get kvs ''to_user_id'') \<and> truthy (dict_get kvs ''message'') \<and>
          \<not> (bindable (dict_get kvs ''to_user_id'') \<and> bindable (dict_get kvs ''message'') \<and>
             dict_get kvs ''message'' \<noteq> JFloat NaN) \<longrightarrow>
            (\<exists>e. fst (send_message pf (JObj kvs) w) = Inl e) \<and>
            snd (send_message pf (JObj kvs) w) = w)"
  using auth
  by (auto simp: send_message_def validation_error_def message_sent_def Let_def)

text \<open>
  The claim as stated fails for a recipient that is no user: no user has the key 999,
  and the message to 999 is stored with the answer 200.
\<close>

theorem send_message_unknown_recipient_counterexample:
  "get_user 999 alice_shop = None \<and>
   send_message example_platform greeting alice_shop =
     (Inr message_sent,
      alice_shop\<lparr>chat_messages :=
        [\<lparr>msg_id = 1, from_user_id = 1, to_user_id = JInt 999, message = JStr ''hi'',
          timestamp = 1000\<rparr>]\<rparr>)"
  by (simp add: send_message_def greeting_def alice_shop_user dict_get_def
      next_id_def example_platform_def)
    (simp add: alice_shop_def shop_def alice_def get_user_def)

theorem send_message_validation_witness:
  "fst (send_message example_platform no_recipient alice_shop) = Inr validation_error \<and>
   snd (send_message example_platform no_recipient alice_shop) = alice_shop \<and>
   send_message example_platform forged alice_shop =
     (Inr message_sent,
      alice_shop\<lparr>chat_messages :=
        [\<lparr>msg_id = 1, from_user_id = 1, to_user_id = JInt 2, message = JStr ''yo'',
          timestamp = 1000\<rparr>]\<rparr>)"
proof -
  have g1: "dict_get [(''to_user_id'', JStr ''''), (''message'', JStr ''hi'')] ''to_user_id'' = JStr ''''"
    and g2: "dict_get [(''from_user_id'', JInt 7), (''to_user_id'', JInt 2), (''message'', JStr ''yo'')]
        ''to_user_id'' = JInt 2"
    and g3: "dict_get [(''from_user_id'', JInt 7), (''to_user_id'', JInt 2), (''message'', JStr ''yo'')]
        ''message'' = JStr ''yo''"
    by (simp_all add: dict_get_def)
  have e: "chat_messages alice_shop = []" "user_id alice = 1" "utcnow example_platform = 1000"
    by (simp_all add: alice_shop_def shop_def alice_def example_platform_def)
  from send_message_validation [OF alice_shop_user, where pf = example_platform
      and kvs = "[(''to_user_id'', JStr ''''), (''message'', JStr ''hi'')]"] g1
  have s1: "fst (send_message example_platform no_recipient alice_shop) = Inr validation_error \<and>
     snd (send_message example_platform no_recipient alice_shop) = alice_shop"
    by (simp add: no_recipient_def)
  from send_message_validation [OF alice_shop_user, where pf = example_platform
      and kvs = "[(''from_user_id'', JInt 7), (''to_user_id'', JInt 2), (''message'', JStr ''yo'')]"]
    g2 g3 e
  have s2: "send_message example_platform forged alice_shop =
     (Inr message_sent,
      alice_shop\<lparr>chat_messages :=
        [\<lparr>msg_id = 1, from_user_id = 1, to_user_id = JInt 2, message = JStr ''yo'',
          timestamp = 1000\<rparr>]\<rparr>)"
    by (simp add: forged_def next_id_def)
  from s1 s2 show ?thesis by blast
qed

lemma send_message_success:
  assumes "send_message pf d w = (Inr (Json 200 b), w')"
  shows "\<exists>m. chat_messages w' = chat_messages w @ [m] \<and> session w = Some (from_user_id m)"
proof (cases "current_user w")
  case None
  with assms show ?thesis by (simp add: send_message_def unauthorized_def)
next
  case (Some cur)
  then have s: "session w = Some (user_id cur)" by (rule current_user_session)
  show ?thesis
  proof (cases d)
    case (JObj kvs)
    with assms Some s show ?thesis
      by (auto simp: send_message_def Let_def message_sent_def validation_error_def
          split: if_splits)
  qed (use assms Some in \<open>simp_all add: send_message_def\<close>)
qed

text \<open>
  Claim C10. Whenever \<open>send_message\<close> answers with success, it has appended one
  message whose sender is the user id of the session, whatever the body of the
  request holds. So two successful requests under the same session user store the
  same sender, also when their bodies differ or name a sender of their own.
\<close>

theorem send_message_sender_is_session_user:
  assumes r1: "send_message pf d1 w1 = (Inr (Json 200 b1), w1')"
    and r2: "send_message pf d2 w2 = (Inr (Json 200 b2), w2')"
    and same: "session w1 = session w2"
  shows "\<exists>m1 m2. chat_messages w1' = chat_messages w1 @ [m1] \<and>
           chat_messages w2' = chat_messages w2 @ [m2] \<and>
           session w1 = Some (from_user_id m1) \<and> from_user_id m2 = from_user_id m1"
proof -
  from send_message_success [OF r1] obtain m1 where
    m1: "chat_messages w1' = chat_messages w1 @ [m1]" "session w1 = Some (from_user_id m1)"
    by blast
  from send_message_success [OF r2] obtain m2 where
    m2: "chat_messages w2' = chat_messages w2 @ [m2]" "session w2 = Some (from_user_id m2)"
    by blast
  from m1 m2 same show ?thesis by auto
qed

lemma greeting_run:
  "send_message example_platform greeting alice_shop =
     (Inr (Json 200 (JObj [(''status'', JStr ''success'')])),
      snd (send_message example_platform greeting alice_shop))"
  by (simp add: send_message_def greeting_def alice_shop_user dict_get_def message_sent_def)

lemma forged_run:
  "send_message example_platform forged alice_shop =
     (Inr (Json 200 (JObj [(''status'', JStr ''success'')])),
      snd (send_message example_platform forged alice_shop))"
  by (simp add: send_message_def forged_def alice_shop_user dict_get_def message_sent_def)

theorem send_message_sender_is_session_user_witness:
  "from_user_id (last (chat_messages (snd (send_message example_platform greeting alice_shop)))) = 1 \<and>
   from_user_id (last (chat_messages (snd (send_message example_platform forged alice_shop)))) = 1"
proof -
  from send_message_sender_is_session_user [OF greeting_run forged_run refl]
  obtain m1 m2 where
    a: "chat_messages (snd (send_message example_platform greeting alice_shop)) =
          chat_messages alice_shop @ [m1]"
    and b: "chat_messages (snd (send_message example_platform forged alice_shop)) =
          chat_messages alice_shop @ [m2]"
    and c: "session alice_shop = Some (from_user_id m1)"
    and d: "from_user_id m2 = from_user_id m1"
    by blast
  have "session alice_shop = Some 1" by (simp add: alice_shop_def)
  with c have "from_user_id m1 = 1" by simp
  with a b d show ?thesis by simp
qed

section \<open>Conversations\<close>






section \<open>The price of a new listing\<close>









section \<open>The locale selector returns a supported tag or nothing\<close>







lemma get_locale_supported_examples:
  "get_locale [(''hi'', 1 / 2), (''en'', 1)] = Some ''en''"
  "get_locale [(''hi-IN'', 1)] = Some ''hi''"
  "get_locale [(''*'', 1)] = Some ''en''"
  by code_simp+

section \<open>The sold flag is never reset\<close>

lemma mark_sold_idem: "mark_sold n (mark_sold n its) = mark_sold n its"
  unfolding mark_sold_def by (induction its) auto

lemma mark_sold_noop: "(\<forall>i \<in> set its. item_id i = n \<longrightarrow> is_sold i) \<Longrightarrow> mark_sold n its = its"
  unfolding mark_sold_def by (induction its) auto

lemma mark_sold_length: "length (mark_sold n its) = length its"
  unfolding mark_sold_def by simp

lemma mark_sold_nth:
  "k < length its \<Longrightarrow>
   item_id (mark_sold n its ! k) = item_id (its ! k) \<and>
   (is_sold (its ! k) \<longrightarrow> is_sold (mark_sold n its ! k))"
  unfolding mark_sold_def by simp

lemma paytm_redirect_items:
  "items (snd (paytm_redirect frm w)) = items w \<or>
   (\<exists>n. items (snd (paytm_redirect frm w)) = mark_sold n (items w))"
  unfolding paytm_redirect_def by (auto split: option.splits)

lemma sell_item_items:
  "items (snd (sell_item pf meth frm upl w)) = items w \<or>
   (\<exists>it. items (snd (sell_item pf meth frm upl w)) = items w @ [it] \<and> \<not> is_sold it)"
  unfolding sell_item_def by (auto simp: Let_def split: option.splits prod.splits)

lemma register_items: "items (snd (register pf meth frm w)) = items w"
  unfolding register_def add_user_def by (auto split: option.splits sum.splits if_splits)

lemma login_items: "items (snd (login pf meth frm w)) = items w"
  unfolding login_def by (auto split: option.splits)

lemma send_message_items: "items (snd (send_message pf d w)) = items w"
  unfolding send_message_def by (auto simp: Let_def split: option.splits json.splits)

lemma get_messages_items: "items (snd (get_messages pf n w)) = items w"
  unfolding get_messages_def by (auto split: option.splits)

lemma readonly_items:
  "items (snd (home w)) = items w"
  "items (snd (logout w)) = items w"
  "items (snd (item_details n w)) = items w"
  "items (snd (my_items w)) = items w"
  "items (snd (buy_item n w)) = items w"
  "items (snd (chat_with_seller n w)) = items w"
  "items (snd (get_api_info pf w)) = items w"
  "items (snd (get_payment_checksum pf oid amt w)) = items w"
  unfolding home_def logout_def item_details_def my_items_def buy_item_def chat_with_seller_def
    get_api_info_def get_payment_checksum_def
  by (auto simp: Let_def split: option.splits)

lemma handle_items:
  "items (snd (handle pf req w)) = items w \<or>
   (\<exists>it. items (snd (handle pf req w)) = items w @ [it] \<and> \<not> is_sold it) \<or>
   (\<exists>n frm. req = ReqPaytmRedirect frm \<and> items (snd (handle pf req w)) = mark_sold n (items w))"
proof (cases req)
  case (ReqSell meth frm upl)
  with sell_item_items [of pf meth frm upl w] show ?thesis by auto
next
  case (ReqPaytmRedirect frm)
  with paytm_redirect_items [of frm w] show ?thesis by auto
qed (simp_all add: readonly_items register_items login_items send_message_items get_messages_items)

lemma create_tables_items: "create_tables pf w = Inr w' \<Longrightarrow> items w' = items w"
  unfolding create_tables_def add_user_def by (auto split: option.splits if_splits)

lemma paytm_redirect_idem:
  "snd (paytm_redirect frm (snd (paytm_redirect frm w))) = snd (paytm_redirect frm w)"
proof (cases "\<exists>e. fst (paytm_redirect frm w) = Inl e \<or> frm ''STATUS'' \<noteq> Some ''TXN_SUCCESS''")
  case True
  then have "snd (paytm_redirect frm w) = w"
    unfolding paytm_redirect_def by (auto split: option.splits if_splits)
  then show ?thesis by simp
next
  case False
  then obtain oid n it where h: "frm ''STATUS'' = Some ''TXN_SUCCESS''" "frm ''ORDERID'' = Some oid"
      "py_int (last (split_on CHR ''_'' oid)) = Some n" "get_item n w = Some it"
    unfolding paytm_redirect_def by (auto split: option.splits if_splits)
  then have one: "snd (paytm_redirect frm w) = w\<lparr>items := mark_sold n (items w)\<rparr>"
    by (simp add: paytm_redirect_def)
  from h have "get_item n (w\<lparr>items := mark_sold n (items w)\<rparr>) \<noteq> None"
    by (simp add: get_item_mark_sold)
  with h have "snd (paytm_redirect frm (w\<lparr>items := mark_sold n (items w)\<rparr>)) =
      w\<lparr>items := mark_sold n (mark_sold n (items w))\<rparr>"
    by (auto simp: paytm_redirect_def split: option.splits)
  with one show ?thesis by (simp add: mark_sold_idem)
qed

text \<open>
  Claim C7. Whatever the request, the item rows that were stored stay in place with
  their keys, and a row that was sold is sold afterwards. Every route but the payment
  callback leaves the stored rows exactly as they were (a listing only appends a new,
  unsold row), and so does the start-up routine. A payment callback for a key whose
  items are all sold already leaves the whole state as it was, and a callback
  repeated on its own result changes nothing more.
\<close>

theorem is_sold_never_reset:
  "length (items w) \<le> length (items (snd (handle pf req w))) \<and>
   (\<forall>k < length (items w).
      item_id (items (snd (handle pf req w)) ! k) = item_id (items w ! k) \<and>
      (is_sold (items w ! k) \<longrightarrow> is_sold (items (snd (handle pf req w)) ! k))) \<and>
   ((\<forall>f. req \<noteq> ReqPaytmRedirect f) \<longrightarrow>
      take (length (items w)) (items (snd (handle pf req w))) = items w) \<and>
   (\<forall>w'. create_tables pf w = Inr w' \<longrightarrow> items w' = items w) \<and>
   ((\<forall>i \<in> set (items w). item_id i = n \<longrightarrow> is_sold i) \<and> frm ''ORDERID'' = Some oid \<and>
    py_int (last (split_on CHR ''_'' oid)) = Some n \<longrightarrow>
      snd (paytm_redirect frm w) = w) \<and>
   snd (paytm_redirect frm (snd (paytm_redirect frm w))) = snd (paytm_redirect frm w)"
proof (intro conjI impI allI)
  show "length (items w) \<le> length (items (snd (handle pf req w)))"
    using handle_items [of pf req w] by (auto simp: mark_sold_length)
next
  fix k assume k: "k < length (items w)"
  from handle_items [of pf req w] k
  show "item_id (items (snd (handle pf req w)) ! k) = item_id (items w ! k)"
    by (auto simp: nth_append mark_sold_nth)
  assume "is_sold (items w ! k)"
  with handle_items [of pf req w] k
  show "is_sold (items (snd (handle pf req w)) ! k)"
    by (auto simp: nth_append mark_sold_nth)
next
  assume "\<forall>f. req \<noteq> ReqPaytmRedirect f"
  with handle_items [of pf req w]
  show "take (length (items w)) (items (snd (handle pf req w))) = items w"
    by auto
next
  fix w' assume "create_tables pf w = Inr w'"
  then show "items w' = items w" by (rule create_tables_items)
next
  assume h: "(\<forall>i \<in> set (items w). item_id i = n \<longrightarrow> is_sold i) \<and> frm ''ORDERID'' = Some oid \<and>
    py_int (last (split_on CHR ''_'' oid)) = Some n"
  then have "mark_sold n (items w) = items w" by (simp add: mark_sold_noop)
  with h show "snd (paytm_redirect frm w) = w"
    by (auto simp: paytm_redirect_def split: option.splits)
next
  show "snd (paytm_redirect frm (snd (paytm_redirect frm w))) = snd (paytm_redirect frm w)"
    by (rule paytm_redirect_idem)
qed


lemma sold_shop_items: "items sold_shop = [lamp, radio\<lparr>is_sold := True\<rparr>]"
  using order_42_parses
  by (simp add: sold_shop_def paytm_redirect_def paid_form_def get_item_def alice_shop_def
      shop_def mark_sold_def lamp_def radio_def)

theorem is_sold_never_reset_witness:
  "is_sold (items sold_shop ! 1) \<and>
   is_sold (items (snd (handle example_platform (ReqSell POST (listing_form ''100'') None)
      sold_shop)) ! 1) \<and>
   take 2 (items (snd (handle example_platform (ReqSell POST (listing_form ''100'') None)
      sold_shop))) = items sold_shop \<and>
   snd (paytm_redirect paid_form sold_shop) = sold_shop"
proof -
  note t = is_sold_never_reset [where w = sold_shop and pf = example_platform
      and req = "ReqSell POST (listing_form ''100'') None" and frm = paid_form and n = 42
      and oid = "''order_42''"]
  have len: "length (items sold_shop) = 2" and sold: "is_sold (items sold_shop ! 1)"
    by (simp_all add: sold_shop_items)
  have k: "(1::nat) < length (items sold_shop)" using len by simp
  from t k sold
  have s1: "is_sold (items (snd (handle example_platform (ReqSell POST (listing_form ''100'') None)
      sold_shop)) ! 1)"
    by blast
  have "\<forall>f. ReqSell POST (listing_form ''100'') None \<noteq> ReqPaytmRedirect f" by simp
  with t have "take (length (items sold_shop)) (items (snd (handle example_platform
      (ReqSell POST (listing_form ''100'') None) sold_shop))) = items sold_shop"
    by blast
  with len have s2: "take 2 (items (snd (handle example_platform
      (ReqSell POST (listing_form ''100'') None) sold_shop))) = items sold_shop"
    by simp
  have "(\<forall>i \<in> set (items sold_shop). item_id i = 42 \<longrightarrow> is_sold i) \<and>
      paid_form ''ORDERID'' = Some ''order_42''"
    by (simp add: sold_shop_items lamp_def radio_def paid_form_def)
  with t order_42_parses have s3: "snd (paytm_redirect paid_form sold_shop) = sold_shop"
    by blast
  from sold s1 s2 s3 show ?thesis by blast
qed


section \<open>The checksum bridge\<close>

text \<open>
  The two helpers only pass their arguments on to the gateway SDK, \<open>verify_checksum\<close>
  with the key and the checksum in the SDK's order. What a round trip returns is
  therefore what the SDK's own two functions return.
\<close>

lemma checksum_bridge_delegates:
  "verify_checksum pf params (generate_checksum pf params key) key =
     sdk_verify_checksum pf params key (sdk_generate_checksum pf params key)"
  by (simp add: verify_checksum_def generate_checksum_def)

end
